theory Spec2Isabelle
  imports Complex_Main "HOL-Library.Monad_Syntax"
begin

section \<open>Numbers\<close>

text \<open>
  The Python sources compute with \<open>float\<close>. Here every float is an exact \<^typ>\<open>real\<close>:
  sums, products and quotients are the mathematical ones, and \<open>round(x, n)\<close> is rounding
  of the exact value to \<open>n\<close> decimals, ties going to the even neighbour. Binary
  representation error of IEEE doubles is therefore outside this development.
\<close>

definition round_half_even :: "real \<Rightarrow> int" where
  "round_half_even y =
     (let f = \<lfloor>y\<rfloor>; d = y - of_int f
      in if d < 1 / 2 then f else if 1 / 2 < d then f + 1 else if even f then f else f + 1)"

text \<open>Python's built-in \<open>round(x, ndigits)\<close>.\<close>

definition py_round :: "real \<Rightarrow> nat \<Rightarrow> real" where
  "py_round x ndigits = of_int (round_half_even (x * 10 ^ ndigits)) / 10 ^ ndigits"

section \<open>engine.py\<close>

text \<open>
  \<open>calculate_hybrid_risk(mangrove_width, sea_state, wind_speed, tide_level, rainfall_mm)\<close>.
  The two selections are the strings of the dashboard, compared with \<open>==\<close> as in the source.
\<close>

definition indigenous_score_of :: "string \<Rightarrow> string \<Rightarrow> real" where
  "indigenous_score_of sea_state wind_speed =
     (let indigenous_score = 0;
          indigenous_score =
            (if sea_state = ''Rough'' then indigenous_score + 0.4
             else if sea_state = ''Choppy'' then indigenous_score + 0.2
             else indigenous_score);
          indigenous_score =
            (if wind_speed = ''Very High'' then indigenous_score + 0.2
             else if wind_speed = ''High'' then indigenous_score + 0.1
             else indigenous_score)
      in indigenous_score)"

definition calculate_hybrid_risk :: "real \<Rightarrow> string \<Rightarrow> string \<Rightarrow> real \<Rightarrow> real \<Rightarrow> real" where
  "calculate_hybrid_risk mangrove_width sea_state wind_speed tide_level rainfall_mm =
     (let satellite_flood_risk = 0.3;
          indigenous_score = indigenous_score_of sea_state wind_speed;
          tide_contribution = min ((tide_level / 3.0) * 0.2) 0.2;
          rainfall_contribution = min ((rainfall_mm / 500.0) * 0.15) 0.15;
          protection_factor = min (mangrove_width / 100) 0.5;
          final_risk = satellite_flood_risk + indigenous_score + tide_contribution
                         + rainfall_contribution - protection_factor
      in py_round (max 0.0 (min 1.0 final_risk)) 2)"

text \<open>
  The order of severity that the specification puts on the two selections
  (Calm, Choppy, Rough and Normal, High, Very High); the source has no such order, it is
  only used to state monotonicity.
\<close>

definition sea_state_severity :: "string \<Rightarrow> nat" where
  "sea_state_severity s = (if s = ''Calm'' then 0 else if s = ''Choppy'' then 1 else 2)"

definition wind_speed_severity :: "string \<Rightarrow> nat" where
  "wind_speed_severity w = (if w = ''Normal'' then 0 else if w = ''High'' then 1 else 2)"

section \<open>community_reports.py: the database\<close>

text \<open>
  The SQLite database of \<open>initialize_community_db\<close>: one list of rows for each of the
  three tables, a record field for each column (\<open>obs_id\<close> is the column \<open>id\<close>; the columns
  of \<open>observers\<close> and \<open>validation_history\<close> that share a name with a column of
  \<open>observations\<close> carry the prefix \<open>c_\<close>, the alias of the join, or \<open>v_\<close>). The two
  columns that \<open>submit_observation\<close> leaves \<open>NULL\<close> are options. Every other column
  holds a value of the type its parameter is annotated with. The two \<open>AUTOINCREMENT\<close>
  keys keep the largest row id ever given out, as SQLite's \<open>sqlite_sequence\<close> does.

  The calls of \<open>sqlite3\<close> act on this state and do not fail: faults of the storage layer
  are outside the model. The readings of \<open>datetime.now().isoformat()\<close> are parameters.
\<close>

record observation =
  obs_id :: int
  observer_id :: string
  observer_name :: string
  location_lat :: real
  location_lon :: real
  observation_type :: string
  description :: string
  confidence_level :: real
  timestamp :: string
  severity :: string
  validated :: int
  validator_id :: "string option"
  validation_timestamp :: "string option"
  reliability_score :: real

record observer =
  c_observer_id :: string
  c_name :: string
  c_role :: string
  c_location_lat :: real
  c_location_lon :: real
  total_observations :: int
  accuracy_score :: real
  registration_date :: string
  is_verified :: int

record validation =
  validation_id :: int
  v_observation_id :: int
  v_validator_id :: string
  validation_date :: string
  validation_result :: string
  reliability_adjustment :: real
  v_notes :: string

record store =
  observations :: "observation list"
  observers :: "observer list"
  validation_history :: "validation list"
  observations_seq :: nat
  validation_history_seq :: nat

text \<open>The database after \<open>initialize_community_db\<close> on a new file.\<close>

definition initial_store :: store where
  "initial_store =
     \<lparr>observations = [], observers = [], validation_history = [],
      observations_seq = 0, validation_history_seq = 0\<rparr>"

text \<open>
  The row id of an \<open>INTEGER PRIMARY KEY AUTOINCREMENT\<close> column: one more than the largest
  id in the table or ever given out.
\<close>

definition next_rowid :: "nat \<Rightarrow> int list \<Rightarrow> int" where
  "next_rowid seq ids = 1 + fold max ids (int seq)"

text \<open>\<open>cursor.fetchone()\<close>: the first row of the result, or \<open>None\<close>.\<close>

definition fetchone :: "'a list \<Rightarrow> 'a option" where
  "fetchone rows = (case rows of [] \<Rightarrow> None | r # _ \<Rightarrow> Some r)"

definition SEVERITY_LEVELS :: "string \<rightharpoonup> real" where
  "SEVERITY_LEVELS =
     [''LOW'' \<mapsto> 0.2, ''MODERATE'' \<mapsto> 0.5, ''HIGH'' \<mapsto> 0.75, ''CRITICAL'' \<mapsto> 0.95]"

text \<open>Python's \<open>d.get(k, dflt)\<close>.\<close>

definition dict_get :: "('k \<rightharpoonup> 'v) \<Rightarrow> 'k \<Rightarrow> 'v \<Rightarrow> 'v" where
  "dict_get d k dflt = (case d k of Some v \<Rightarrow> v | None \<Rightarrow> dflt)"

section \<open>community_reports.py: CommunityObservationValidator\<close>

text \<open>\<open>register_observer\<close>: \<open>INSERT OR IGNORE\<close> keeps the row of an id that is there.\<close>

definition register_observer ::
  "store \<Rightarrow> string \<Rightarrow> string \<Rightarrow> string \<Rightarrow> string \<Rightarrow> real \<Rightarrow> real \<Rightarrow> bool \<times> store" where
  "register_observer st now observer_id' name role lat lon =
     (if observer_id' \<in> set (map c_observer_id (observers st)) then (True, st)
      else (True, st\<lparr>observers := observers st @
              [\<lparr>c_observer_id = observer_id', c_name = name, c_role = role,
                c_location_lat = lat, c_location_lon = lon, total_observations = 0,
                accuracy_score = 0.5, registration_date = now, is_verified = 0\<rparr>]\<rparr>))"

text \<open>
  \<open>submit_observation\<close> returns the new observation id and the database after the commit.
  With no fault of the storage layer no statement of its \<open>try\<close> block raises, so the
  handler that returns \<open>-1\<close> has no branch here.
\<close>

definition submit_observation ::
  "store \<Rightarrow> string \<Rightarrow> string \<Rightarrow> string \<Rightarrow> string \<Rightarrow> real \<times> real \<Rightarrow> string \<Rightarrow> real
     \<Rightarrow> int \<times> store" where
  "submit_observation st now observer_id' obs_type description' location severity' confidence =
     (let result = fetchone (map c_name
                     (filter (\<lambda>c. c_observer_id c = observer_id') (observers st)));
          observer_name' = (case result of Some n \<Rightarrow> n | None \<Rightarrow> ''Anonymous'');
          observation_id = next_rowid (observations_seq st) (map obs_id (observations st));
          st1 = st\<lparr>observations := observations st @
                  [\<lparr>obs_id = observation_id, observer_id = observer_id',
                    observer_name = observer_name', location_lat = fst location,
                    location_lon = snd location, observation_type = obs_type,
                    description = description', confidence_level = confidence,
                    timestamp = now, severity = severity', validated = 0,
                    validator_id = None, validation_timestamp = None,
                    reliability_score = 0.0\<rparr>],
                 observations_seq := nat observation_id\<rparr>;
          st2 = st1\<lparr>observers :=
                  map (\<lambda>c. if c_observer_id c = observer_id'
                            then c\<lparr>total_observations := total_observations c + 1\<rparr> else c)
                      (observers st1)\<rparr>
      in (observation_id, st2))"

text \<open>
  \<open>validate_observation\<close>: an \<open>UPDATE\<close> of the rows with the id, then an \<open>INSERT\<close> into
  \<open>validation_history\<close>. The connection never sets \<open>PRAGMA foreign_keys\<close>, so SQLite does
  not enforce the \<open>FOREIGN KEY\<close> clause of the table and the \<open>INSERT\<close> goes through for
  every id. \<open>now_update\<close> and \<open>now_insert\<close> are the two readings of the clock.
\<close>

definition validate_observation ::
  "store \<Rightarrow> string \<Rightarrow> string \<Rightarrow> int \<Rightarrow> string \<Rightarrow> bool \<Rightarrow> real \<Rightarrow> string \<Rightarrow> bool \<times> store" where
  "validate_observation st now_update now_insert observation_id validator_id' is_valid
       reliability_adjustment' notes' =
     (let st1 = st\<lparr>observations :=
                  map (\<lambda>r. if obs_id r = observation_id
                            then r\<lparr>validated := (if is_valid then 1 else 0),
                                   validator_id := Some validator_id',
                                   validation_timestamp := Some now_update\<rparr>
                            else r)
                      (observations st)\<rparr>;
          validation_id' = next_rowid (validation_history_seq st1)
                             (map validation_id (validation_history st1));
          st2 = st1\<lparr>validation_history := validation_history st1 @
                  [\<lparr>validation_id = validation_id', v_observation_id = observation_id,
                    v_validator_id = validator_id', validation_date = now_insert,
                    validation_result = (if is_valid then ''VALID'' else ''INVALID''),
                    reliability_adjustment = reliability_adjustment', v_notes = notes'\<rparr>],
                 validation_history_seq := nat validation_id'\<rparr>
      in (True, st2))"

text \<open>
  The queries of \<open>calculate_observation_reliability\<close>. The join lists the pairs of an
  observation with the id and an observer with the same \<open>observer_id\<close>.
\<close>

definition select_observation_join :: "store \<Rightarrow> int \<Rightarrow> (observation \<times> observer) list" where
  "select_observation_join st observation_id =
     concat (map (\<lambda>ob. map (\<lambda>c. (ob, c))
                          (filter (\<lambda>c. observer_id ob = c_observer_id c) (observers st)))
                 (filter (\<lambda>ob. obs_id ob = observation_id) (observations st)))"

definition select_column :: "(observation \<Rightarrow> 'a) \<Rightarrow> store \<Rightarrow> int \<Rightarrow> 'a list" where
  "select_column col st observation_id =
     map col (filter (\<lambda>ob. obs_id ob = observation_id) (observations st))"

text \<open>
  \<open>SELECT COUNT(*)\<close> of the corroborating rows; \<open>lat\<close> and \<open>lon\<close> are the location of the
  observation. A scalar subquery with no row is \<open>NULL\<close>, which equals no type.
\<close>

definition corroboration_count :: "store \<Rightarrow> int \<Rightarrow> real \<Rightarrow> real \<Rightarrow> nat" where
  "corroboration_count st observation_id lat lon =
     length (filter
       (\<lambda>r. lat - 0.09 \<le> location_lat r \<and> location_lat r \<le> lat + 0.09
           \<and> lon - 0.09 \<le> location_lon r \<and> location_lon r \<le> lon + 0.09
           \<and> Some (observation_type r)
               = fetchone (select_column observation_type st observation_id)
           \<and> obs_id r \<noteq> observation_id
           \<and> validated r = 1)
       (observations st))"

text \<open>The score before it is stored, from the row of the join and the count.\<close>

definition base_score_of :: "observation \<Rightarrow> observer \<Rightarrow> nat \<Rightarrow> real" where
  "base_score_of ob c corroboration_count' =
     (let confidence = confidence_level ob;
          observer_accuracy = accuracy_score c;
          base_score = observer_accuracy;
          base_score = base_score * confidence;
          severity_weight = dict_get SEVERITY_LEVELS (severity ob) 0.5;
          base_score = base_score * 0.7 + severity_weight * 0.3;
          base_score = (if validated ob \<noteq> 0 then min (base_score + 0.15) 1.0 else base_score);
          base_score = (if corroboration_count' > 0
                        then min (base_score + (real corroboration_count' * 0.05)) 1.0
                        else base_score)
      in base_score)"

text \<open>\<open>UPDATE observations SET reliability_score = ? WHERE id = ?\<close>, on one row.\<close>

definition set_reliability :: "int \<Rightarrow> real \<Rightarrow> observation \<Rightarrow> observation" where
  "set_reliability observation_id base_score r =
     (if obs_id r = observation_id then r\<lparr>reliability_score := base_score\<rparr> else r)"

text \<open>
  The \<open>try\<close> block of \<open>calculate_observation_reliability\<close>; \<open>None\<close> is an exception
  (\<open>fetchone()[0]\<close> on no row). It returns the value and the database: unchanged at the
  early return, with the \<open>UPDATE\<close> committed at the end.
\<close>

definition reliability_try :: "store \<Rightarrow> int \<Rightarrow> (real \<times> store) option" where
  "reliability_try st observation_id =
     (case fetchone (select_observation_join st observation_id) of
        None \<Rightarrow> Some (0.0, st)
      | Some (ob, c) \<Rightarrow>
          do {
            lat \<leftarrow> fetchone (select_column location_lat st observation_id);
            lon \<leftarrow> fetchone (select_column location_lon st observation_id);
            let corroboration_count' = corroboration_count st observation_id lat lon;
            let base_score = base_score_of ob c corroboration_count';
            let st' = st\<lparr>observations :=
                         map (set_reliability observation_id base_score) (observations st)\<rparr>;
            Some (py_round base_score 3, st')
          })"

text \<open>The handler: any exception gives 0.0, and nothing was committed.\<close>

definition calculate_observation_reliability :: "store \<Rightarrow> int \<Rightarrow> real \<times> store" where
  "calculate_observation_reliability st observation_id =
     (case reliability_try st observation_id of
        Some res \<Rightarrow> res
      | None \<Rightarrow> (0.0, st))"

section \<open>community_reports.py: TraditionalKnowledgeModifier\<close>

text \<open>
  A row of the aggregation query: \<open>observation_type\<close>, \<open>severity\<close>,
  \<open>reliability_score\<close>, \<open>description\<close>. The values of the result dictionary are
  floats, an integer and the list of the rows.
\<close>

type_synonym row = "string \<times> string \<times> real \<times> string"

datatype pyval = PyFloat real | PyInt int | PyRecords "row list"

text \<open>
  SQLite's \<open>datetime('now', '-' || ? || ' hours')\<close>. \<open>now_utc\<close> is the clock of the call,
  in seconds since 1970-01-01 00:00:00 UTC. The result is the text
  \<open>YYYY-MM-DD HH:MM:SS\<close> of the clock less the hours, for years 0000 to 9999; for a
  negative \<open>hours_back\<close> the modifier reads \<open>--N hours\<close>, which SQLite does not accept,
  and the result is \<open>NULL\<close>. \<open>civil_from_days\<close> is the Gregorian date of a day number.
\<close>

definition civil_from_days :: "int \<Rightarrow> int \<times> int \<times> int" where
  "civil_from_days z =
     (let z = z + 719468;
          era = z div 146097;
          doe = z - era * 146097;
          yoe = (doe - doe div 1460 + doe div 36524 - doe div 146096) div 365;
          y = yoe + era * 400;
          doy = doe - (365 * yoe + yoe div 4 - yoe div 100);
          mp = (5 * doy + 2) div 153;
          d = doy - (153 * mp + 2) div 5 + 1;
          m = (if mp < 10 then mp + 3 else mp - 9)
      in (if m \<le> 2 then y + 1 else y, m, d))"

definition digit :: "int \<Rightarrow> char" where
  "digit n = ''0123456789'' ! nat (n mod 10)"

definition digits2 :: "int \<Rightarrow> string" where
  "digits2 n = [digit (n div 10), digit n]"

definition digits4 :: "int \<Rightarrow> string" where
  "digits4 n = [digit (n div 1000), digit (n div 100), digit (n div 10), digit n]"

definition format_datetime :: "int \<Rightarrow> string" where
  "format_datetime t =
     (let days = t div 86400;
          secs = t mod 86400;
          (y, m, d) = civil_from_days days
      in digits4 y @ ''-'' @ digits2 m @ ''-'' @ digits2 d @ '' ''
         @ digits2 (secs div 3600) @ '':'' @ digits2 (secs mod 3600 div 60) @ '':''
         @ digits2 (secs mod 60))"

definition sqlite_datetime_now_minus_hours :: "int \<Rightarrow> int \<Rightarrow> string option" where
  "sqlite_datetime_now_minus_hours now_utc hours_back =
     (if hours_back < 0 then None
      else Some (format_datetime (now_utc - 3600 * hours_back)))"

text \<open>
  SQLite's \<open>>\<close> on two texts: the bytes are compared from the left, and of two texts
  that agree on the shorter one the longer is the greater.
\<close>

fun sqlite_text_gt :: "string \<Rightarrow> string \<Rightarrow> bool" where
  "sqlite_text_gt [] bs = False"
| "sqlite_text_gt (a # as) [] = True"
| "sqlite_text_gt (a # as) (b # bs) =
     (if (of_char b :: nat) < of_char a then True
      else if (of_char a :: nat) < of_char b then False
      else sqlite_text_gt as bs)"

text \<open>
  The \<open>WHERE\<close> clause of the query. The column \<open>timestamp\<close> holds the text that
  \<open>datetime.now().isoformat()\<close> gave at submission, \<open>YYYY-MM-DDTHH:MM:SS\<close> with an
  optional fraction, and \<open>timestamp > datetime('now', ...)\<close> compares it as text with the
  text of the cutoff; a comparison with \<open>NULL\<close> selects no row. The four bounds on the
  location are exact sums and differences here; the doubles of the source can differ from
  them in the last place, which matters only for a row that lies on a bound.
\<close>

definition window_rows :: "int \<Rightarrow> store \<Rightarrow> real \<times> real \<Rightarrow> int \<Rightarrow> observation list" where
  "window_rows now_utc st location hours_back =
     (let search_radius = 0.45
      in filter
           (\<lambda>r. fst location - search_radius \<le> location_lat r
                 \<and> location_lat r \<le> fst location + search_radius
               \<and> snd location - search_radius \<le> location_lon r
                 \<and> location_lon r \<le> snd location + search_radius
               \<and> validated r = 1
               \<and> (case sqlite_datetime_now_minus_hours now_utc hours_back of
                     None \<Rightarrow> False
                   | Some cutoff \<Rightarrow> sqlite_text_gt (timestamp r) cutoff))
           (observations st))"

text \<open>The data frame of the query, \<open>ORDER BY reliability_score DESC\<close>.\<close>

definition select_window :: "int \<Rightarrow> store \<Rightarrow> real \<times> real \<Rightarrow> int \<Rightarrow> row list" where
  "select_window now_utc st location hours_back =
     sort_key (\<lambda>(obs_type, sev, reliability, descr). - reliability)
       (map (\<lambda>r. (observation_type r, severity r, reliability_score r, description r))
            (window_rows now_utc st location hours_back))"

definition initial_scores :: "string \<rightharpoonup> real" where
  "initial_scores =
     [''anomalous_waves'' \<mapsto> 0.0, ''wind_pattern_shift'' \<mapsto> 0.0, ''tidal_anomaly'' \<mapsto> 0.0,
      ''wildlife_behavior'' \<mapsto> 0.0, ''coastal_erosion'' \<mapsto> 0.0, ''mangrove_stress'' \<mapsto> 0.0]"

text \<open>
  The loop over the rows. \<open>scores[obs_type] += contribution\<close> raises \<open>KeyError\<close> for a type
  that is not a key of \<open>scores\<close>: the result is \<open>None\<close>.
\<close>

fun accumulate :: "(string \<rightharpoonup> real) \<Rightarrow> row list \<Rightarrow> (string \<rightharpoonup> real) option" where
  "accumulate scores [] = Some scores"
| "accumulate scores ((obs_type, sev, reliability, descr) # rows) =
     (let severity_weight = dict_get SEVERITY_LEVELS sev 0.5;
          contribution = severity_weight * reliability
      in case scores obs_type of
           None \<Rightarrow> None
         | Some v \<Rightarrow> accumulate (scores(obs_type \<mapsto> v + contribution)) rows)"

text \<open>
  The \<open>try\<close> block for a data frame that is not empty; \<open>None\<close> is an exception. A lookup
  \<open>scores[k]\<close> is the option \<open>scores k\<close>.
\<close>

definition aggregate :: "row list \<Rightarrow> (string \<times> pyval) list option" where
  "aggregate df =
     do {
       scores \<leftarrow> accumulate initial_scores df;
       anomalous_waves \<leftarrow> scores ''anomalous_waves'';
       let wave_score = min (anomalous_waves / 3) 0.4;
       wind_pattern_shift \<leftarrow> scores ''wind_pattern_shift'';
       let wind_score = min (wind_pattern_shift / 3) 0.3;
       tidal_anomaly \<leftarrow> scores ''tidal_anomaly'';
       let tidal_score = min (tidal_anomaly / 3) 0.25;
       wildlife_behavior \<leftarrow> scores ''wildlife_behavior'';
       coastal_erosion \<leftarrow> scores ''coastal_erosion'';
       mangrove_stress \<leftarrow> scores ''mangrove_stress'';
       let ecosystem_score =
             min ((wildlife_behavior + coastal_erosion + mangrove_stress) / 9) 0.2;
       let total_score = wave_score + wind_score + tidal_score + ecosystem_score;
       let total_score = min total_score 1.0;
       let confidence = min (real (length df) / 5) 1.0;
       Some [(''wave_anomaly_score'', PyFloat (py_round wave_score 3)),
             (''wind_anomaly_score'', PyFloat (py_round wind_score 3)),
             (''tidal_anomaly_score'', PyFloat (py_round tidal_score 3)),
             (''ecosystem_stress_score'', PyFloat (py_round ecosystem_score 3)),
             (''total_indigenous_score'', PyFloat (py_round total_score 3)),
             (''confidence'', PyFloat (py_round confidence 3)),
             (''num_observations'', PyInt (int (length df))),
             (''observations_summary'', PyRecords df)]
     }"

text \<open>
  \<open>calculate_indigenous_score_from_observations\<close>: the dictionary of zeros for an empty
  data frame, the aggregate otherwise, and the three keys of the handler on an exception.
\<close>

definition calculate_indigenous_score_from_observations ::
  "int \<Rightarrow> store \<Rightarrow> real \<times> real \<Rightarrow> int \<Rightarrow> (string \<times> pyval) list" where
  "calculate_indigenous_score_from_observations now_utc st location hours_back =
     (let df = select_window now_utc st location hours_back
      in if df = []
         then [(''wave_anomaly_score'', PyFloat 0.0),
               (''wind_anomaly_score'', PyFloat 0.0),
               (''tidal_anomaly_score'', PyFloat 0.0),
               (''ecosystem_stress_score'', PyFloat 0.0),
               (''total_indigenous_score'', PyFloat 0.0),
               (''confidence'', PyFloat 0.0),
               (''num_observations'', PyInt 0)]
         else (case aggregate df of
                 Some result \<Rightarrow> result
               | None \<Rightarrow> [(''total_indigenous_score'', PyFloat 0.0),
                          (''confidence'', PyFloat 0.0),
                          (''num_observations'', PyInt 0)]))"

text \<open>
  The specification's sums and sub-scores: \<open>severity_weight * reliability\<close> summed over
  the rows of a category, divided and capped. They are not functions of the source; the
  loop and the result dictionary are compared with them.
\<close>

definition spec_category_sum :: "row list \<Rightarrow> string \<Rightarrow> real" where
  "spec_category_sum df category =
     sum_list (map (\<lambda>(obs_type, sev, reliability, descr).
                      dict_get SEVERITY_LEVELS sev 0.5 * reliability)
                   (filter (\<lambda>(obs_type, sev, reliability, descr). obs_type = category) df))"

definition spec_wave_score :: "row list \<Rightarrow> real" where
  "spec_wave_score df = min (spec_category_sum df ''anomalous_waves'' / 3) 0.4"

definition spec_wind_score :: "row list \<Rightarrow> real" where
  "spec_wind_score df = min (spec_category_sum df ''wind_pattern_shift'' / 3) 0.3"

definition spec_tidal_score :: "row list \<Rightarrow> real" where
  "spec_tidal_score df = min (spec_category_sum df ''tidal_anomaly'' / 3) 0.25"

definition spec_ecosystem_score :: "row list \<Rightarrow> real" where
  "spec_ecosystem_score df =
     min ((spec_category_sum df ''wildlife_behavior'' + spec_category_sum df ''coastal_erosion''
            + spec_category_sum df ''mangrove_stress'') / 9) 0.2"

section \<open>Example databases\<close>

text \<open>
  \<open>store_one\<close>: a registered fisherman and one observation of his.
  \<open>store_anonymous\<close>: one observation under an observer id that was never registered.
\<close>

definition store_one :: store where
  "store_one =
     snd (submit_observation
            (snd (register_observer initial_store ''2026-01-01T08:00:00'' ''F1'' ''Ravi''
                    ''fisherman'' 9.9 76.2))
            ''2026-01-01T09:00:00'' ''F1'' ''anomalous_waves'' ''high waves'' (9.9, 76.2)
            ''MODERATE'' 0.123)"

definition store_anonymous :: store where
  "store_anonymous =
     snd (submit_observation initial_store ''2026-01-01T09:00:00'' ''ghost''
            ''tidal_anomaly'' ''early tide'' (9.9, 76.2) ''HIGH'' 0.9)"

text \<open>
  \<open>store_one_validated\<close>: \<open>store_one\<close> after an elder validated the observation;
  \<open>store_validated\<close>: after its reliability was computed as well.
\<close>

definition store_one_validated :: store where
  "store_one_validated =
     snd (validate_observation store_one ''2026-01-01T10:00:00'' ''2026-01-01T10:00:01'' 1
            ''elder'' True 0.0 ''confirmed'')"

definition store_validated :: store where
  "store_validated = snd (calculate_observation_reliability store_one_validated 1)"

text \<open>The two summands of \<open>indigenous_score\<close>, named for the proofs.\<close>

definition sea_part :: "string \<Rightarrow> real" where
  "sea_part s = (if s = ''Rough'' then 0.4 else if s = ''Choppy'' then 0.2 else 0)"

definition wind_part :: "string \<Rightarrow> real" where
  "wind_part w = (if w = ''Very High'' then 0.2 else if w = ''High'' then 0.1 else 0)"

section \<open>Rounding\<close>

lemma round_half_even_bounds:
  "of_int \<lfloor>y\<rfloor> \<le> (of_int (round_half_even y) :: real)"
  "round_half_even y \<le> \<lfloor>y\<rfloor> + 1"
  by (simp_all add: round_half_even_def Let_def)

lemma round_half_even_mono:
  assumes "x \<le> y"
  shows "round_half_even x \<le> round_half_even y"
proof (cases "\<lfloor>x\<rfloor> = \<lfloor>y\<rfloor>")
  case True
  with assms have "x - of_int \<lfloor>x\<rfloor> \<le> y - of_int \<lfloor>y\<rfloor>" by simp
  with True show ?thesis
    by (auto simp: round_half_even_def Let_def)
next
  case False
  with assms have "\<lfloor>x\<rfloor> + 1 \<le> \<lfloor>y\<rfloor>"
    using floor_mono [of x y] by linarith
  moreover have "round_half_even x \<le> \<lfloor>x\<rfloor> + 1"
    by (rule round_half_even_bounds)
  moreover have "\<lfloor>y\<rfloor> \<le> round_half_even y"
    by (simp add: round_half_even_def Let_def)
  ultimately show ?thesis by linarith
qed

lemma round_half_even_of_int [simp]: "round_half_even (of_int n) = n"
  by (simp add: round_half_even_def)

lemma py_round_mono:
  assumes "x \<le> y"
  shows "py_round x n \<le> py_round y n"
proof -
  have "x * 10 ^ n \<le> y * 10 ^ n"
    using assms by (simp add: mult_right_mono)
  then have "round_half_even (x * 10 ^ n) \<le> round_half_even (y * 10 ^ n)"
    by (rule round_half_even_mono)
  then have "(of_int (round_half_even (x * 10 ^ n)) :: real)
               \<le> of_int (round_half_even (y * 10 ^ n))"
    by simp
  then show ?thesis
    unfolding py_round_def by (rule divide_right_mono) simp
qed

lemma py_round_zero [simp]: "py_round 0 n = 0"
  using round_half_even_of_int [of 0] by (simp add: py_round_def)

lemma py_round_one [simp]: "py_round 1 n = 1"
proof -
  have "(1::real) * 10 ^ n = of_int (10 ^ n)" by simp
  then have "round_half_even (1 * 10 ^ n) = 10 ^ n"
    by (simp only: round_half_even_of_int)
  then show ?thesis by (simp add: py_round_def)
qed

lemma py_round_unit: "0 \<le> x \<Longrightarrow> x \<le> 1 \<Longrightarrow> 0 \<le> py_round x n \<and> py_round x n \<le> 1"
  using py_round_mono [of 0 x n] py_round_mono [of x 1 n] by simp

section \<open>Hybrid risk\<close>

lemma clamp_mono: "x \<le> y \<Longrightarrow> max 0.0 (min 1.0 x) \<le> max 0.0 (min 1.0 (y::real))"
  by (simp add: max.coboundedI2 min.coboundedI2)

lemma indigenous_score_of_parts: "indigenous_score_of s w = sea_part s + wind_part w"
  by (simp add: indigenous_score_of_def sea_part_def wind_part_def Let_def)

lemma sea_part_mono:
  assumes "s \<in> {''Calm'', ''Choppy'', ''Rough''}" "s' \<in> {''Calm'', ''Choppy'', ''Rough''}"
    and "sea_state_severity s \<le> sea_state_severity s'"
  shows "sea_part s \<le> sea_part s'"
proof -
  from assms(1) consider "s = ''Calm''" | "s = ''Choppy''" | "s = ''Rough''" by blast
  then show ?thesis
  proof cases
    case 1
    then show ?thesis by (simp add: sea_part_def)
  next
    case 2
    with assms(2,3) have "s' = ''Choppy'' \<or> s' = ''Rough''"
      by (auto simp: sea_state_severity_def)
    with 2 show ?thesis by (auto simp: sea_part_def)
  next
    case 3
    with assms(2,3) have "s' = ''Rough''"
      by (auto simp: sea_state_severity_def)
    with 3 show ?thesis by (simp add: sea_part_def)
  qed
qed

lemma wind_part_mono:
  assumes "w \<in> {''Normal'', ''High'', ''Very High''}" "w' \<in> {''Normal'', ''High'', ''Very High''}"
    and "wind_speed_severity w \<le> wind_speed_severity w'"
  shows "wind_part w \<le> wind_part w'"
proof -
  from assms(1) consider "w = ''Normal''" | "w = ''High''" | "w = ''Very High''" by blast
  then show ?thesis
  proof cases
    case 1
    then show ?thesis by (simp add: wind_part_def)
  next
    case 2
    with assms(2,3) have "w' = ''High'' \<or> w' = ''Very High''"
      by (auto simp: wind_speed_severity_def)
    with 2 show ?thesis by (auto simp: wind_part_def)
  next
    case 3
    with assms(2,3) have "w' = ''Very High''"
      by (auto simp: wind_speed_severity_def)
    with 3 show ?thesis by (simp add: wind_part_def)
  qed
qed

lemma indigenous_score_of_mono:
  assumes "s \<in> {''Calm'', ''Choppy'', ''Rough''}" "s' \<in> {''Calm'', ''Choppy'', ''Rough''}"
    and "w \<in> {''Normal'', ''High'', ''Very High''}" "w' \<in> {''Normal'', ''High'', ''Very High''}"
    and "sea_state_severity s \<le> sea_state_severity s'"
    and "wind_speed_severity w \<le> wind_speed_severity w'"
  shows "indigenous_score_of s w \<le> indigenous_score_of s' w'"
  using sea_part_mono [OF assms(1,2,5)] wind_part_mono [OF assms(3,4,6)]
  by (simp add: indigenous_score_of_parts)

text \<open>
  C1. For a mangrove width, tide level and rainfall that are not negative and selections
  among the three sea states and the three wind speeds, the risk lies between 0 and 1.
  Between two such inputs, the one with the sea state and the wind speed at least as
  severe, the tide and the rainfall at least as high and the mangrove belt at most as wide
  has at least the risk of the other. Keeping four arguments equal gives monotonicity in
  the fifth alone.
\<close>

theorem calculate_hybrid_risk_range_mono:
  assumes "0 \<le> m'" "m' \<le> m"
    and "s \<in> {''Calm'', ''Choppy'', ''Rough''}" "s' \<in> {''Calm'', ''Choppy'', ''Rough''}"
    and "w \<in> {''Normal'', ''High'', ''Very High''}" "w' \<in> {''Normal'', ''High'', ''Very High''}"
    and "sea_state_severity s \<le> sea_state_severity s'"
    and "wind_speed_severity w \<le> wind_speed_severity w'"
    and "0 \<le> t" "t \<le> t'" "0 \<le> r" "r \<le> r'"
  shows "0 \<le> calculate_hybrid_risk m s w t r \<and> calculate_hybrid_risk m s w t r \<le> 1 \<and>
         calculate_hybrid_risk m s w t r \<le> calculate_hybrid_risk m' s' w' t' r'"
proof -
  have ind: "indigenous_score_of s w \<le> indigenous_score_of s' w'"
    using assms(3-8) by (rule indigenous_score_of_mono)
  have tide: "min ((t / 3.0) * 0.2) 0.2 \<le> min ((t' / 3.0) * 0.2) (0.2::real)"
    using \<open>t \<le> t'\<close> by (intro min.mono) simp_all
  have rain: "min ((r / 500.0) * 0.15) 0.15 \<le> min ((r' / 500.0) * 0.15) (0.15::real)"
    using \<open>r \<le> r'\<close> by (intro min.mono) simp_all
  have prot: "min (m' / 100) 0.5 \<le> min (m / 100) (0.5::real)"
    using \<open>m' \<le> m\<close> by (intro min.mono) simp_all
  have "0.3 + indigenous_score_of s w + min ((t / 3.0) * 0.2) 0.2
          + min ((r / 500.0) * 0.15) 0.15 - min (m / 100) 0.5
        \<le> 0.3 + indigenous_score_of s' w' + min ((t' / 3.0) * 0.2) 0.2
          + min ((r' / 500.0) * 0.15) 0.15 - min (m' / 100) (0.5::real)"
    by (intro diff_mono add_mono order_refl ind tide rain prot)
  then have mono: "calculate_hybrid_risk m s w t r \<le> calculate_hybrid_risk m' s' w' t' r'"
    unfolding calculate_hybrid_risk_def Let_def
    by (intro py_round_mono clamp_mono)
  have "0 \<le> calculate_hybrid_risk m s w t r \<and> calculate_hybrid_risk m s w t r \<le> 1"
    unfolding calculate_hybrid_risk_def Let_def
    by (rule py_round_unit) simp_all
  with mono show ?thesis by simp
qed

theorem calculate_hybrid_risk_range_mono_witness:
  "0 \<le> calculate_hybrid_risk 40 ''Calm'' ''High'' 1 100 \<and>
   calculate_hybrid_risk 40 ''Calm'' ''High'' 1 100 \<le> 1 \<and>
   calculate_hybrid_risk 40 ''Calm'' ''High'' 1 100
     \<le> calculate_hybrid_risk 20 ''Rough'' ''Very High'' 2 250"
  using calculate_hybrid_risk_range_mono
    [of 20 40 "''Calm''" "''Rough''" "''High''" "''Very High''" 1 2 100 250]
  by (simp add: sea_state_severity_def wind_speed_severity_def)

text \<open>
  C6. \<open>calculate_hybrid_risk(85, "Calm", "Normal", 0, 0)\<close> is 0.0: the baseline 0.3 less
  the capped protection 0.5 is negative and is clamped. At
  \<open>(0, "Rough", "Very High", 3.0, 500)\<close> the sum 1.25 is clamped to 1.0.
\<close>

theorem calculate_hybrid_risk_examples:
  "calculate_hybrid_risk 85 ''Calm'' ''Normal'' 0 0 = 0.0 \<and>
   calculate_hybrid_risk 0 ''Rough'' ''Very High'' 3.0 500 = 1.0"
  by (simp add: calculate_hybrid_risk_def indigenous_score_of_def)

section \<open>Reliability of an observation\<close>

lemma reliability_try_no_join:
  "select_observation_join st oid = [] \<Longrightarrow> reliability_try st oid = Some (0, st)"
  by (simp add: reliability_try_def fetchone_def)

lemma reliability_no_join:
  "select_observation_join st oid = [] \<Longrightarrow> calculate_observation_reliability st oid = (0, st)"
  by (simp add: calculate_observation_reliability_def reliability_try_no_join)

lemma join_empty_missing:
  "oid \<notin> obs_id ` set (observations st) \<Longrightarrow> select_observation_join st oid = []"
  by (auto simp: select_observation_join_def filter_empty_conv)

lemma join_empty_unregistered:
  "\<forall>ob \<in> set (observations st). obs_id ob = oid \<longrightarrow>
      observer_id ob \<notin> c_observer_id ` set (observers st)
   \<Longrightarrow> select_observation_join st oid = []"
  by (auto simp: select_observation_join_def filter_empty_conv)

lemma set_reliability_fields [simp]:
  "obs_id (set_reliability oid b r) = obs_id r"
  "observer_id (set_reliability oid b r) = observer_id r"
  "location_lat (set_reliability oid b r) = location_lat r"
  "location_lon (set_reliability oid b r) = location_lon r"
  "observation_type (set_reliability oid b r) = observation_type r"
  "confidence_level (set_reliability oid b r) = confidence_level r"
  "severity (set_reliability oid b r) = severity r"
  "validated (set_reliability oid b r) = validated r"
  by (simp_all add: set_reliability_def)

lemma join_set_reliability:
  "select_observation_join (st\<lparr>observations := map (set_reliability oid b) (observations st)\<rparr>) k
     = map (\<lambda>(ob, c). (set_reliability oid b ob, c)) (select_observation_join st k)"
  by (simp add: select_observation_join_def filter_map map_concat comp_def)

lemma select_column_set_reliability:
  assumes "\<And>r. col (set_reliability oid b r) = col r"
  shows "select_column col (st\<lparr>observations := map (set_reliability oid b) (observations st)\<rparr>) k
     = select_column col st k"
  using assms by (simp add: select_column_def filter_map comp_def)

lemma corroboration_count_set_reliability:
  "corroboration_count (st\<lparr>observations := map (set_reliability oid b) (observations st)\<rparr>) k lat lon
     = corroboration_count st k lat lon"
  by (simp add: corroboration_count_def filter_map comp_def select_column_set_reliability)

lemma base_score_of_set_reliability:
  "base_score_of (set_reliability oid b ob) c n = base_score_of ob c n"
  by (simp add: base_score_of_def)

lemma join_nonempty_columns:
  assumes "select_observation_join st oid = (ob, c) # rest"
  shows "\<exists>v. fetchone (select_column col st oid) = Some v"
  using assms
  by (auto simp: select_observation_join_def select_column_def fetchone_def split: list.splits)

lemma reliability_try_join:
  assumes "fetchone (select_observation_join st oid) = Some (ob, c)"
    and "fetchone (select_column location_lat st oid) = Some lat"
    and "fetchone (select_column location_lon st oid) = Some lon"
  shows "reliability_try st oid =
        Some (py_round (base_score_of ob c (corroboration_count st oid lat lon)) 3,
         st\<lparr>observations := map (set_reliability oid
                (base_score_of ob c (corroboration_count st oid lat lon))) (observations st)\<rparr>)"
  unfolding reliability_try_def assms by (simp add: Let_def)

lemma reliability_join:
  assumes "select_observation_join st oid = (ob, c) # rest"
  shows "\<exists>lat lon.
      fetchone (select_column location_lat st oid) = Some lat \<and>
      fetchone (select_column location_lon st oid) = Some lon \<and>
      calculate_observation_reliability st oid =
        (py_round (base_score_of ob c (corroboration_count st oid lat lon)) 3,
         st\<lparr>observations := map (set_reliability oid
                (base_score_of ob c (corroboration_count st oid lat lon))) (observations st)\<rparr>)"
proof -
  obtain lat where lat: "fetchone (select_column location_lat st oid) = Some lat"
    using join_nonempty_columns [OF assms, of location_lat] by (elim exE)
  obtain lon where lon: "fetchone (select_column location_lon st oid) = Some lon"
    using join_nonempty_columns [OF assms, of location_lon] by (elim exE)
  have "fetchone (select_observation_join st oid) = Some (ob, c)"
    using assms by (simp add: fetchone_def)
  then have "calculate_observation_reliability st oid =
        (py_round (base_score_of ob c (corroboration_count st oid lat lon)) 3,
         st\<lparr>observations := map (set_reliability oid
                (base_score_of ob c (corroboration_count st oid lat lon))) (observations st)\<rparr>)"
    unfolding calculate_observation_reliability_def
    by (simp only: reliability_try_join [OF _ lat lon] option.case)
  with lat lon show ?thesis by blast
qed

lemma join_member:
  assumes "select_observation_join st oid = (ob, c) # rest"
  shows "ob \<in> set (observations st) \<and> c \<in> set (observers st) \<and> obs_id ob = oid
         \<and> c_observer_id c = observer_id ob"
proof -
  have "(ob, c) \<in> set (select_observation_join st oid)"
    using assms by simp
  then show ?thesis
    by (auto simp: select_observation_join_def)
qed

lemma severity_weight_bounds:
  "0 \<le> dict_get SEVERITY_LEVELS sev 0.5 \<and> dict_get SEVERITY_LEVELS sev 0.5 \<le> 1"
  by (simp add: dict_get_def SEVERITY_LEVELS_def)

lemma base_score_of_unit:
  assumes "0 \<le> confidence_level ob" "confidence_level ob \<le> 1"
    and "0 \<le> accuracy_score c" "accuracy_score c \<le> 1"
  shows "0 \<le> base_score_of ob c n \<and> base_score_of ob c n \<le> 1"
proof -
  define p where "p = accuracy_score c * confidence_level ob"
  define w where "w = dict_get SEVERITY_LEVELS (severity ob) 0.5"
  define b where "b = p * 0.7 + w * 0.3"
  have p: "0 \<le> p" "p \<le> 1"
    using assms by (simp_all add: p_def mult_le_one)
  have w: "0 \<le> w" "w \<le> 1"
    using severity_weight_bounds [of "severity ob"] by (simp_all add: w_def)
  have b: "0 \<le> b" "b \<le> 1"
    using p w by (simp_all add: b_def)
  have "base_score_of ob c n =
          (let v = (if validated ob \<noteq> 0 then min (b + 0.15) 1.0 else b)
           in if n > 0 then min (v + real n * 0.05) 1.0 else v)"
    by (simp add: base_score_of_def b_def p_def w_def Let_def)
  with b show ?thesis
    by (auto simp: Let_def min_def)
qed

section \<open>The example databases, evaluated\<close>

lemma store_one_value:
  "store_one =
     \<lparr>observations =
        [\<lparr>obs_id = 1, observer_id = ''F1'', observer_name = ''Ravi'', location_lat = 9.9,
          location_lon = 76.2, observation_type = ''anomalous_waves'',
          description = ''high waves'', confidence_level = 0.123,
          timestamp = ''2026-01-01T09:00:00'', severity = ''MODERATE'', validated = 0,
          validator_id = None, validation_timestamp = None, reliability_score = 0\<rparr>],
      observers =
        [\<lparr>c_observer_id = ''F1'', c_name = ''Ravi'', c_role = ''fisherman'',
          c_location_lat = 9.9, c_location_lon = 76.2, total_observations = 1,
          accuracy_score = 0.5, registration_date = ''2026-01-01T08:00:00'',
          is_verified = 0\<rparr>],
      validation_history = [], observations_seq = 1, validation_history_seq = 0\<rparr>"
  by (simp add: store_one_def submit_observation_def register_observer_def initial_store_def
        next_rowid_def fetchone_def Let_def)

lemma store_one_join:
  "select_observation_join store_one 1
     = [(hd (observations store_one), hd (observers store_one))]"
  by (simp add: store_one_value select_observation_join_def)

lemma store_one_columns:
  "fetchone (select_column location_lat store_one 1) = Some 9.9"
  "fetchone (select_column location_lon store_one 1) = Some 76.2"
  by (simp_all add: store_one_value select_column_def fetchone_def)

lemma store_one_count: "corroboration_count store_one 1 lat lon = 0"
  by (simp add: store_one_value corroboration_count_def)

lemma store_one_base:
  "base_score_of (hd (observations store_one)) (hd (observers store_one)) 0 = 0.19305"
  by (simp add: store_one_value base_score_of_def dict_get_def SEVERITY_LEVELS_def)

lemma round_19305: "py_round 0.19305 3 = 0.193"
  by (simp add: py_round_def round_half_even_def)

lemma store_one_reliability:
  "calculate_observation_reliability store_one 1 =
     (0.193, store_one\<lparr>observations :=
        map (set_reliability 1 0.19305) (observations store_one)\<rparr>)"
  using reliability_join [OF store_one_join]
  by (simp only: store_one_columns store_one_count store_one_base round_19305 option.inject
        simp_thms ex_simps)

lemma store_anonymous_value:
  "store_anonymous =
     \<lparr>observations =
        [\<lparr>obs_id = 1, observer_id = ''ghost'', observer_name = ''Anonymous'',
          location_lat = 9.9, location_lon = 76.2, observation_type = ''tidal_anomaly'',
          description = ''early tide'', confidence_level = 0.9,
          timestamp = ''2026-01-01T09:00:00'', severity = ''HIGH'', validated = 0,
          validator_id = None, validation_timestamp = None, reliability_score = 0\<rparr>],
      observers = [], validation_history = [], observations_seq = 1,
      validation_history_seq = 0\<rparr>"
  by (simp add: store_anonymous_def submit_observation_def initial_store_def
        next_rowid_def fetchone_def Let_def)

lemma store_anonymous_submit:
  "submit_observation initial_store ''2026-01-01T09:00:00'' ''ghost''
          ''tidal_anomaly'' ''early tide'' (9.9, 76.2) ''HIGH'' 0.9 = (1, store_anonymous)"
proof -
  have "fst (submit_observation initial_store ''2026-01-01T09:00:00'' ''ghost''
          ''tidal_anomaly'' ''early tide'' (9.9, 76.2) ''HIGH'' 0.9) = 1"
    by (simp add: submit_observation_def initial_store_def next_rowid_def Let_def)
  then show ?thesis
    by (simp add: store_anonymous_def prod_eq_iff)
qed

section \<open>Row ids and the join\<close>

lemma fold_max_ge: "(a::int) \<le> fold max xs a"
proof (induction xs arbitrary: a)
  case Nil
  show ?case by simp
next
  case (Cons x xs)
  have "a \<le> max x a" by simp
  also have "\<dots> \<le> fold max xs (max x a)" by (rule Cons.IH)
  finally show ?case by simp
qed

lemma fold_max_member: "x \<in> set xs \<Longrightarrow> (x::int) \<le> fold max xs a"
proof (induction xs arbitrary: a)
  case Nil
  then show ?case by simp
next
  case (Cons y ys)
  show ?case
  proof (cases "x = y")
    case True
    have "x \<le> max y a" using True by simp
    also have "\<dots> \<le> fold max ys (max y a)" by (rule fold_max_ge)
    finally show ?thesis by simp
  next
    case False
    with Cons.prems have "x \<in> set ys" by simp
    then show ?thesis using Cons.IH by simp
  qed
qed

lemma next_rowid_fresh: "0 < next_rowid seq ids \<and> next_rowid seq ids \<notin> set ids"
proof -
  have "int seq \<le> fold max ids (int seq)" by (rule fold_max_ge)
  then have pos: "0 < next_rowid seq ids" by (simp add: next_rowid_def)
  have "next_rowid seq ids \<notin> set ids"
  proof
    assume "next_rowid seq ids \<in> set ids"
    then have "next_rowid seq ids \<le> fold max ids (int seq)" by (rule fold_max_member)
    then show False by (simp add: next_rowid_def)
  qed
  with pos show ?thesis by simp
qed

lemma join_nonempty:
  assumes "ob \<in> set (observations st)" "c \<in> set (observers st)"
    and "obs_id ob = oid" "c_observer_id c = observer_id ob"
  shows "select_observation_join st oid \<noteq> []"
proof -
  have "(ob, c) \<in> set (select_observation_join st oid)"
    using assms by (auto simp: select_observation_join_def)
  then show ?thesis by auto
qed

section \<open>Claims on the validator\<close>

text \<open>
  C2. Recording a validation for an observation id that is not in the database should
  fail. It does not: in \<open>store_one\<close>, whose only observation has id 1,
  \<open>validate_observation\<close> for id 999 returns \<open>True\<close> and appends a row to
  \<open>validation_history\<close> that refers to observation 999.
\<close>

theorem validate_missing_observation_succeeds:
  "999 \<notin> obs_id ` set (observations store_one) \<and>
   validate_observation store_one ''2026-01-02T10:00:00'' ''2026-01-02T10:00:01'' 999
       ''elder'' True 0.1 ''seen'' =
     (True,
      store_one\<lparr>validation_history :=
        [\<lparr>validation_id = 1, v_observation_id = 999, v_validator_id = ''elder'',
          validation_date = ''2026-01-02T10:00:01'', validation_result = ''VALID'',
          reliability_adjustment = 0.1, v_notes = ''seen''\<rparr>],
        validation_history_seq := 1\<rparr>)"
  by (simp add: store_one_value validate_observation_def next_rowid_def Let_def)

text \<open>
  C3. When the confidence of the observation and the accuracy score of its observer lie
  in [0, 1], the value that \<open>calculate_observation_reliability\<close> returns lies in [0, 1],
  in every database and so for every number of corroborating rows.
\<close>

theorem reliability_in_unit_interval:
  assumes "\<forall>ob \<in> set (observations st). obs_id ob = oid \<longrightarrow>
             0 \<le> confidence_level ob \<and> confidence_level ob \<le> 1"
    and "\<forall>ob \<in> set (observations st). \<forall>c \<in> set (observers st).
             obs_id ob = oid \<and> c_observer_id c = observer_id ob \<longrightarrow>
             0 \<le> accuracy_score c \<and> accuracy_score c \<le> 1"
  shows "0 \<le> fst (calculate_observation_reliability st oid) \<and>
         fst (calculate_observation_reliability st oid) \<le> 1"
proof (cases "select_observation_join st oid")
  case Nil
  then show ?thesis by (simp add: reliability_no_join)
next
  case (Cons p rest)
  obtain ob c where p: "p = (ob, c)" by (cases p)
  have j: "select_observation_join st oid = (ob, c) # rest"
    using Cons p by simp
  from join_member [OF j] assms
  have "0 \<le> confidence_level ob" "confidence_level ob \<le> 1"
       "0 \<le> accuracy_score c" "accuracy_score c \<le> 1"
    by blast+
  then have "0 \<le> base_score_of ob c n \<and> base_score_of ob c n \<le> 1" for n
    by (rule base_score_of_unit)
  then have "0 \<le> py_round (base_score_of ob c n) 3 \<and> py_round (base_score_of ob c n) 3 \<le> 1" for n
    using py_round_unit by blast
  moreover from reliability_join [OF j] obtain n where
    "fst (calculate_observation_reliability st oid) = py_round (base_score_of ob c n) 3"
    by fastforce
  ultimately show ?thesis by simp
qed

theorem reliability_in_unit_interval_witness:
  "0 \<le> fst (calculate_observation_reliability store_one 1) \<and>
   fst (calculate_observation_reliability store_one 1) \<le> 1 \<and>
   fst (calculate_observation_reliability store_one 1) = 0.193"
proof -
  have h1: "\<forall>ob \<in> set (observations store_one). obs_id ob = 1 \<longrightarrow>
             0 \<le> confidence_level ob \<and> confidence_level ob \<le> 1"
    by (simp add: store_one_value)
  have h2: "\<forall>ob \<in> set (observations store_one). \<forall>c \<in> set (observers store_one).
             obs_id ob = 1 \<and> c_observer_id c = observer_id ob \<longrightarrow>
             0 \<le> accuracy_score c \<and> accuracy_score c \<le> 1"
    by (simp add: store_one_value)
  from reliability_in_unit_interval [OF h1 h2] show ?thesis
    by (simp add: store_one_reliability)
qed

text \<open>
  C4, as the code has it. For an observation whose observer is registered, the call
  stores the score as computed, not rounded, on the rows with the id, and returns that
  score rounded to 3 decimals: the value returned is the stored \<open>reliability_score\<close>
  rounded to 3 decimals.
\<close>

theorem reliability_returns_rounded_stored:
  assumes "ob \<in> set (observations st)" "c \<in> set (observers st)"
    and "c_observer_id c = observer_id ob"
  shows "obs_id ob \<in> obs_id ` set (observations
               (snd (calculate_observation_reliability st (obs_id ob)))) \<and>
         (\<forall>r \<in> set (observations (snd (calculate_observation_reliability st (obs_id ob)))).
            obs_id r = obs_id ob \<longrightarrow>
            fst (calculate_observation_reliability st (obs_id ob))
              = py_round (reliability_score r) 3)"
proof -
  have "select_observation_join st (obs_id ob) \<noteq> []"
    using assms by (intro join_nonempty [of ob st c]) simp_all
  then obtain ob' c' rest where j: "select_observation_join st (obs_id ob) = (ob', c') # rest"
    by (cases "select_observation_join st (obs_id ob)") auto
  from reliability_join [OF j] obtain b where
    res: "calculate_observation_reliability st (obs_id ob) =
            (py_round b 3,
             st\<lparr>observations := map (set_reliability (obs_id ob) b) (observations st)\<rparr>)"
    by blast
  have "set_reliability (obs_id ob) b ob \<in> set (map (set_reliability (obs_id ob) b) (observations st))"
    using assms(1) by simp
  then have "obs_id ob \<in> obs_id ` set (map (set_reliability (obs_id ob) b) (observations st))"
    by (metis image_eqI set_reliability_fields(1))
  moreover have "reliability_score r = b"
    if "r \<in> set (map (set_reliability (obs_id ob) b) (observations st))" "obs_id r = obs_id ob" for r
    using that by (auto simp: set_reliability_def)
  ultimately show ?thesis
    unfolding res by simp
qed

theorem reliability_returns_rounded_stored_witness:
  "hd (observations store_one) \<in> set (observations store_one) \<and>
   hd (observers store_one) \<in> set (observers store_one) \<and>
   c_observer_id (hd (observers store_one)) = observer_id (hd (observations store_one)) \<and>
   obs_id (hd (observations store_one)) = 1 \<and>
   select_column reliability_score (snd (calculate_observation_reliability store_one 1)) 1
     = [0.19305] \<and>
   fst (calculate_observation_reliability store_one 1) = py_round 0.19305 3"
proof -
  have h1: "hd (observations store_one) \<in> set (observations store_one)"
    by (simp add: store_one_value)
  have h2: "hd (observers store_one) \<in> set (observers store_one)"
    by (simp add: store_one_value)
  have h3: "c_observer_id (hd (observers store_one)) = observer_id (hd (observations store_one))"
    by (simp add: store_one_value)
  have h4: "obs_id (hd (observations store_one)) = 1"
    by (simp add: store_one_value)
  have stored: "select_column reliability_score
                  (snd (calculate_observation_reliability store_one 1)) 1 = [0.19305]"
    unfolding store_one_reliability
    by (simp add: select_column_def set_reliability_def store_one_value)
  have score: "reliability_score r = 0.19305"
    if "r \<in> set (observations (snd (calculate_observation_reliability store_one 1)))" for r
    using that unfolding store_one_reliability
    by (auto simp: set_reliability_def store_one_value)
  note inst = reliability_returns_rounded_stored [OF h1 h2 h3, unfolded h4]
  from inst obtain r where
    r: "r \<in> set (observations (snd (calculate_observation_reliability store_one 1)))"
       "obs_id r = 1"
    by (auto simp: image_iff)
  with inst have "fst (calculate_observation_reliability store_one 1)
                    = py_round (reliability_score r) 3"
    by blast
  then have "fst (calculate_observation_reliability store_one 1) = py_round 0.19305 3"
    by (simp only: score [OF r(1)])
  with h1 h2 h3 h4 stored show ?thesis by simp
qed

text \<open>
  C4, as stated: the stored score would equal the value returned. In \<open>store_one\<close>
  the call returns 0.193 and stores 0.19305.
\<close>

theorem reliability_stored_differs_from_returned:
  "fst (calculate_observation_reliability store_one 1) = 0.193 \<and>
   select_column reliability_score (snd (calculate_observation_reliability store_one 1)) 1
     = [0.19305] \<and>
   select_column reliability_score (snd (calculate_observation_reliability store_one 1)) 1
     \<noteq> [fst (calculate_observation_reliability store_one 1)]"
  unfolding store_one_reliability
  by (simp add: select_column_def set_reliability_def store_one_value)

text \<open>
  C7. For an observer id that is not in \<open>observers\<close>, \<open>submit_observation\<close> returns
  an id that is not \<open>-1\<close> and that no observation had before, and the one row stored
  under that id has the \<open>observer_name\<close> \<open>Anonymous\<close>.
\<close>

theorem submit_unknown_observer:
  assumes "observer_id' \<notin> c_observer_id ` set (observers st)"
  shows "fst (submit_observation st now observer_id' obs_type description' location
                severity' confidence) \<noteq> - 1 \<and>
         fst (submit_observation st now observer_id' obs_type description' location
                severity' confidence) \<notin> obs_id ` set (observations st) \<and>
         select_column observer_name
           (snd (submit_observation st now observer_id' obs_type description' location
                   severity' confidence))
           (fst (submit_observation st now observer_id' obs_type description' location
                   severity' confidence)) = [''Anonymous'']"
proof -
  define new_id where "new_id = next_rowid (observations_seq st) (map obs_id (observations st))"
  have fresh: "0 < new_id" "new_id \<notin> obs_id ` set (observations st)"
    using next_rowid_fresh [of "observations_seq st" "map obs_id (observations st)"]
    by (simp_all add: new_id_def)
  have unknown: "filter (\<lambda>c. c_observer_id c = observer_id') (observers st) = []"
    using assms by (auto simp: filter_empty_conv)
  have old: "filter (\<lambda>ob. obs_id ob = new_id) (observations st) = []"
    using fresh(2) by (auto simp: filter_empty_conv)
  have id: "fst (submit_observation st now observer_id' obs_type description' location
                severity' confidence) = new_id"
    by (simp add: submit_observation_def Let_def new_id_def)
  have "select_column observer_name
           (snd (submit_observation st now observer_id' obs_type description' location
                   severity' confidence)) new_id = [''Anonymous'']"
    using old unknown
    by (simp add: submit_observation_def Let_def select_column_def fetchone_def
          new_id_def [symmetric])
  with id fresh show ?thesis by simp
qed

theorem submit_unknown_observer_witness:
  "''ghost'' \<notin> c_observer_id ` set (observers initial_store) \<and>
   fst (submit_observation initial_store ''2026-01-01T09:00:00'' ''ghost''
          ''tidal_anomaly'' ''early tide'' (9.9, 76.2) ''HIGH'' 0.9) = 1 \<and>
   select_column observer_name store_anonymous 1 = [''Anonymous'']"
proof -
  have h: "''ghost'' \<notin> c_observer_id ` set (observers initial_store)"
    by (simp add: initial_store_def)
  note submit_unknown_observer [OF h, of "''2026-01-01T09:00:00''"
          "''tidal_anomaly''" "''early tide''" "(9.9, 76.2)" "''HIGH''" "0.9"]
  then show ?thesis
    unfolding store_anonymous_submit using h by simp
qed

text \<open>
  C8. For an observation id that is not in the database,
  \<open>calculate_observation_reliability\<close> returns 0.0 and the database is unchanged. No
  exception is raised on the way: the \<open>try\<close> block itself ends at its early return.
\<close>

theorem reliability_missing_observation:
  assumes "observation_id \<notin> obs_id ` set (observations st)"
  shows "reliability_try st observation_id = Some (0.0, st) \<and>
         calculate_observation_reliability st observation_id = (0.0, st)"
  using assms by (simp add: reliability_try_no_join reliability_no_join join_empty_missing)

theorem reliability_missing_observation_witness:
  "7 \<notin> obs_id ` set (observations store_one) \<and>
   reliability_try store_one 7 = Some (0.0, store_one) \<and>
   calculate_observation_reliability store_one 7 = (0.0, store_one)"
  using reliability_missing_observation [of 7 store_one]
  by (simp add: store_one_value)

text \<open>
  C9. A second call of \<open>calculate_observation_reliability\<close>, on the database that
  the first call left, returns the value of the first call.
\<close>

theorem reliability_idempotent:
  "fst (calculate_observation_reliability (snd (calculate_observation_reliability st oid)) oid)
     = fst (calculate_observation_reliability st oid)"
proof (cases "select_observation_join st oid")
  case Nil
  then show ?thesis by (simp add: reliability_no_join)
next
  case (Cons p rest)
  obtain ob c where p: "p = (ob, c)" by (cases p)
  have j: "select_observation_join st oid = (ob, c) # rest"
    using Cons p by simp
  from reliability_join [OF j] obtain lat lon where
    lat: "fetchone (select_column location_lat st oid) = Some lat" and
    lon: "fetchone (select_column location_lon st oid) = Some lon" and
    first: "calculate_observation_reliability st oid =
        (py_round (base_score_of ob c (corroboration_count st oid lat lon)) 3,
         st\<lparr>observations := map (set_reliability oid
                (base_score_of ob c (corroboration_count st oid lat lon))) (observations st)\<rparr>)"
    by blast
  define b where "b = base_score_of ob c (corroboration_count st oid lat lon)"
  define st' where "st' = st\<lparr>observations := map (set_reliability oid b) (observations st)\<rparr>"
  have j': "select_observation_join st' oid
              = (set_reliability oid b ob, c)
                # map (\<lambda>(ob, c). (set_reliability oid b ob, c)) rest"
    unfolding st'_def by (simp add: join_set_reliability j)
  from reliability_join [OF j'] obtain lat' lon' where
    lat': "fetchone (select_column location_lat st' oid) = Some lat'" and
    lon': "fetchone (select_column location_lon st' oid) = Some lon'" and
    second: "fst (calculate_observation_reliability st' oid) =
        py_round (base_score_of (set_reliability oid b ob) c
                    (corroboration_count st' oid lat' lon')) 3"
    by fastforce
  have "lat' = lat"
    using lat lat' unfolding st'_def by (simp add: select_column_set_reliability)
  moreover have "lon' = lon"
    using lon lon' unfolding st'_def by (simp add: select_column_set_reliability)
  moreover have "corroboration_count st' oid lat lon = corroboration_count st oid lat lon"
    unfolding st'_def by (rule corroboration_count_set_reliability)
  ultimately have "fst (calculate_observation_reliability st' oid) = py_round b 3"
    using second by (simp add: base_score_of_set_reliability b_def)
  then show ?thesis
    using first by (simp add: b_def st'_def)
qed

text \<open>
  C10. For an observation that exists, when no row of \<open>observers\<close> has the
  \<open>observer_id\<close> of the rows with its id, the join is empty: the \<open>try\<close> block ends at the
  early return that a missing observation id takes, \<open>calculate_observation_reliability\<close>
  returns 0.0 and leaves the database, and with it the stored \<open>reliability_score\<close>,
  unchanged.
\<close>

theorem reliability_unregistered_observer:
  assumes "ob \<in> set (observations st)"
    and "\<forall>r \<in> set (observations st). obs_id r = obs_id ob \<longrightarrow>
           observer_id r \<notin> c_observer_id ` set (observers st)"
  shows "select_observation_join st (obs_id ob) = [] \<and>
         reliability_try st (obs_id ob) = Some (0.0, st) \<and>
         calculate_observation_reliability st (obs_id ob) = (0.0, st)"
  using assms(2)
  by (simp add: reliability_try_no_join reliability_no_join join_empty_unregistered)

theorem reliability_unregistered_observer_witness:
  "hd (observations store_anonymous) \<in> set (observations store_anonymous) \<and>
   observer_id (hd (observations store_anonymous))
     \<notin> c_observer_id ` set (observers store_anonymous) \<and>
   obs_id (hd (observations store_anonymous)) = 1 \<and>
   calculate_observation_reliability store_anonymous 1 = (0.0, store_anonymous) \<and>
   select_column reliability_score
     (snd (calculate_observation_reliability store_anonymous 1)) 1 = [0.0]"
proof -
  have h1: "hd (observations store_anonymous) \<in> set (observations store_anonymous)"
    by (simp add: store_anonymous_value)
  have h2: "\<forall>r \<in> set (observations store_anonymous).
              obs_id r = obs_id (hd (observations store_anonymous)) \<longrightarrow>
              observer_id r \<notin> c_observer_id ` set (observers store_anonymous)"
    by (simp add: store_anonymous_value)
  have h3: "obs_id (hd (observations store_anonymous)) = 1"
    by (simp add: store_anonymous_value)
  note inst = reliability_unregistered_observer [OF h1 h2, unfolded h3]
  then have res: "calculate_observation_reliability store_anonymous 1 = (0.0, store_anonymous)"
    by blast
  have "select_column reliability_score
          (snd (calculate_observation_reliability store_anonymous 1)) 1 = [0.0]"
    unfolding res by (simp add: select_column_def store_anonymous_value)
  moreover have "observer_id (hd (observations store_anonymous))
                   \<notin> c_observer_id ` set (observers store_anonymous)"
    by (simp add: store_anonymous_value)
  ultimately show ?thesis
    using h1 h3 res by blast
qed

section \<open>The aggregator\<close>

lemma accumulate_sum:
  assumes "\<forall>row \<in> set rows. fst row \<in> dom scores"
  shows "accumulate scores rows
           = Some (\<lambda>k. map_option (\<lambda>v. v + spec_category_sum rows k) (scores k))"
  using assms
proof (induction rows arbitrary: scores)
  case Nil
  have "(\<lambda>k. map_option (\<lambda>v. v + spec_category_sum [] k) (scores k)) = scores"
    by (rule ext) (simp add: spec_category_sum_def option.map_ident)
  then show ?case by simp
next
  case (Cons row rows)
  obtain obs_type sev reliability descr where row: "row = (obs_type, sev, reliability, descr)"
    by (cases row)
  from Cons.prems row obtain v where v: "scores obs_type = Some v"
    by auto
  define contribution where "contribution = dict_get SEVERITY_LEVELS sev 0.5 * reliability"
  let ?scores' = "scores(obs_type \<mapsto> v + contribution)"
  have "\<forall>row \<in> set rows. fst row \<in> dom ?scores'"
    using Cons.prems by auto
  then have "accumulate ?scores' rows
               = Some (\<lambda>k. map_option (\<lambda>v. v + spec_category_sum rows k) (?scores' k))"
    by (rule Cons.IH)
  moreover have "(\<lambda>k. map_option (\<lambda>v. v + spec_category_sum rows k) (?scores' k))
                   = (\<lambda>k. map_option (\<lambda>v. v + spec_category_sum (row # rows) k) (scores k))"
    by (rule ext) (simp add: v row spec_category_sum_def contribution_def)
  ultimately show ?case
    by (simp add: row v contribution_def)
qed

lemma accumulate_initial:
  assumes "\<forall>row \<in> set df. fst row \<in> dom initial_scores"
  shows "\<exists>scores. accumulate initial_scores df = Some scores \<and>
           (\<forall>k \<in> dom initial_scores. scores k = Some (spec_category_sum df k))"
proof -
  have "\<forall>k \<in> dom initial_scores. initial_scores k = Some 0"
    by (auto simp: initial_scores_def split: if_splits)
  then show ?thesis
    unfolding accumulate_sum [OF assms] by auto
qed

lemma aggregate_total:
  assumes "aggregate df = Some res"
  shows "\<exists>t. map_of res ''total_indigenous_score'' = Some (PyFloat t) \<and> t \<le> 1"
proof -
  have "py_round (min x 1.0) 3 \<le> 1" for x :: real
    using py_round_mono [of "min x 1.0" 1 3] by simp
  with assms show ?thesis
    by (auto simp: aggregate_def Let_def split: bind_splits)
qed

lemma store_one_validated_value:
  "store_one_validated =
     \<lparr>observations =
        [\<lparr>obs_id = 1, observer_id = ''F1'', observer_name = ''Ravi'', location_lat = 9.9,
          location_lon = 76.2, observation_type = ''anomalous_waves'',
          description = ''high waves'', confidence_level = 0.123,
          timestamp = ''2026-01-01T09:00:00'', severity = ''MODERATE'', validated = 1,
          validator_id = Some ''elder'', validation_timestamp = Some ''2026-01-01T10:00:00'',
          reliability_score = 0\<rparr>],
      observers =
        [\<lparr>c_observer_id = ''F1'', c_name = ''Ravi'', c_role = ''fisherman'',
          c_location_lat = 9.9, c_location_lon = 76.2, total_observations = 1,
          accuracy_score = 0.5, registration_date = ''2026-01-01T08:00:00'',
          is_verified = 0\<rparr>],
      validation_history =
        [\<lparr>validation_id = 1, v_observation_id = 1, v_validator_id = ''elder'',
          validation_date = ''2026-01-01T10:00:01'', validation_result = ''VALID'',
          reliability_adjustment = 0, v_notes = ''confirmed''\<rparr>],
      observations_seq = 1, validation_history_seq = 1\<rparr>"
  by (simp add: store_one_validated_def store_one_value validate_observation_def
        next_rowid_def Let_def)

lemma store_validated_observations:
  "observations store_validated =
        [\<lparr>obs_id = 1, observer_id = ''F1'', observer_name = ''Ravi'', location_lat = 9.9,
          location_lon = 76.2, observation_type = ''anomalous_waves'',
          description = ''high waves'', confidence_level = 0.123,
          timestamp = ''2026-01-01T09:00:00'', severity = ''MODERATE'', validated = 1,
          validator_id = Some ''elder'', validation_timestamp = Some ''2026-01-01T10:00:00'',
          reliability_score = 0.34305\<rparr>]"
proof -
  let ?st = store_one_validated
  have j: "select_observation_join ?st 1 = [(hd (observations ?st), hd (observers ?st))]"
    by (simp add: store_one_validated_value select_observation_join_def)
  have cnt: "corroboration_count ?st 1 lat lon = 0" for lat lon
    by (simp add: store_one_validated_value corroboration_count_def)
  have base: "base_score_of (hd (observations ?st)) (hd (observers ?st)) 0 = 0.34305"
    by (simp add: store_one_validated_value base_score_of_def dict_get_def SEVERITY_LEVELS_def)
  from reliability_join [OF j] have
    "snd (calculate_observation_reliability ?st 1)
       = ?st\<lparr>observations := map (set_reliability 1 0.34305) (observations ?st)\<rparr>"
    unfolding cnt base by auto
  then have "observations store_validated = map (set_reliability 1 0.34305) (observations ?st)"
    by (simp add: store_validated_def)
  then show ?thesis
    by (simp add: store_one_validated_value set_reliability_def)
qed

lemma aggregate_known:
  assumes "\<forall>row \<in> set df. fst row \<in> dom initial_scores"
  shows "aggregate df =
     Some [(''wave_anomaly_score'', PyFloat (py_round (spec_wave_score df) 3)),
           (''wind_anomaly_score'', PyFloat (py_round (spec_wind_score df) 3)),
           (''tidal_anomaly_score'', PyFloat (py_round (spec_tidal_score df) 3)),
           (''ecosystem_stress_score'', PyFloat (py_round (spec_ecosystem_score df) 3)),
           (''total_indigenous_score'',
              PyFloat (py_round (min (spec_wave_score df + spec_wind_score df
                                       + spec_tidal_score df + spec_ecosystem_score df) 1.0) 3)),
           (''confidence'', PyFloat (py_round (min (real (length df) / 5) 1.0) 3)),
           (''num_observations'', PyInt (int (length df))),
           (''observations_summary'', PyRecords df)]"
proof -
  from accumulate_initial [OF assms] obtain scores where
    acc: "accumulate initial_scores df = Some scores" and
    val: "\<forall>k \<in> dom initial_scores. scores k = Some (spec_category_sum df k)"
    by blast
  have keys: "''anomalous_waves'' \<in> dom initial_scores"
    "''wind_pattern_shift'' \<in> dom initial_scores"
    "''tidal_anomaly'' \<in> dom initial_scores"
    "''wildlife_behavior'' \<in> dom initial_scores"
    "''coastal_erosion'' \<in> dom initial_scores"
    "''mangrove_stress'' \<in> dom initial_scores"
    by (simp_all add: initial_scores_def)
  have look: "scores ''anomalous_waves'' = Some (spec_category_sum df ''anomalous_waves'')"
    "scores ''wind_pattern_shift'' = Some (spec_category_sum df ''wind_pattern_shift'')"
    "scores ''tidal_anomaly'' = Some (spec_category_sum df ''tidal_anomaly'')"
    "scores ''wildlife_behavior'' = Some (spec_category_sum df ''wildlife_behavior'')"
    "scores ''coastal_erosion'' = Some (spec_category_sum df ''coastal_erosion'')"
    "scores ''mangrove_stress'' = Some (spec_category_sum df ''mangrove_stress'')"
    using val keys by blast+
  show ?thesis
    unfolding aggregate_def acc
    by (simp add: look Let_def spec_wave_score_def spec_wind_score_def spec_tidal_score_def
          spec_ecosystem_score_def)
qed

lemma spec_score_caps:
  "spec_wave_score df \<le> 0.4" "spec_wind_score df \<le> 0.3"
  "spec_tidal_score df \<le> 0.25" "spec_ecosystem_score df \<le> 0.2"
  unfolding spec_wave_score_def spec_wind_score_def spec_tidal_score_def
    spec_ecosystem_score_def
  by (rule min.cobounded2)+

lemma select_window_empty:
  "select_window now_utc st location hours_back = []
     \<longleftrightarrow> window_rows now_utc st location hours_back = []"
proof -
  have "length (select_window now_utc st location hours_back)
          = length (window_rows now_utc st location hours_back)"
    by (simp add: select_window_def)
  then show ?thesis by (metis length_0_conv)
qed

lemma select_window_types:
  assumes "\<forall>r \<in> set (window_rows now_utc st location hours_back).
             observation_type r \<in> dom initial_scores"
  shows "\<forall>row \<in> set (select_window now_utc st location hours_back).
           fst row \<in> dom initial_scores"
  using assms by (auto simp: select_window_def)

lemma indigenous_total_le_one:
  "\<exists>t. map_of (calculate_indigenous_score_from_observations now_utc st location hours_back)
          ''total_indigenous_score'' = Some (PyFloat t) \<and> t \<le> 1"
proof (cases "select_window now_utc st location hours_back = []")
  case True
  then show ?thesis
    by (simp add: calculate_indigenous_score_from_observations_def)
next
  case False
  show ?thesis
  proof (cases "aggregate (select_window now_utc st location hours_back)")
    case None
    with False show ?thesis
      by (simp add: calculate_indigenous_score_from_observations_def)
  next
    case (Some res)
    with False have "calculate_indigenous_score_from_observations now_utc st location hours_back
                       = res"
      by (simp add: calculate_indigenous_score_from_observations_def)
    with aggregate_total [OF Some] show ?thesis by simp
  qed
qed


lemma aggregate_unknown_category:
  "aggregate [(''anomalous_waves'', ''MODERATE'', 0.34305, ''high waves''),
              (''sea_monster'', ''HIGH'', 0.5, ''seen at dusk'')] = None"
  by (simp add: aggregate_def initial_scores_def)

lemma cutoff_2026_01_01: "sqlite_datetime_now_minus_hours 1767311040 1 = Some ''2026-01-01 22:44:00''"
  by code_simp

lemma store_validated_window:
  "window_rows 1767311040 store_validated (10, 76) 1 = observations store_validated"
  by (simp add: window_rows_def store_validated_observations cutoff_2026_01_01)

lemma store_validated_df:
  "select_window 1767311040 store_validated (10, 76) 1
     = [(''anomalous_waves'', ''MODERATE'', 0.34305, ''high waves'')]"
  unfolding select_window_def store_validated_window
  by (simp add: store_validated_observations)

lemma store_validated_scores:
  "spec_wave_score [(''anomalous_waves'', ''MODERATE'', 0.34305, ''high waves'')] = 0.057175"
  "spec_wind_score [(''anomalous_waves'', ''MODERATE'', 0.34305, ''high waves'')] = 0"
  "spec_tidal_score [(''anomalous_waves'', ''MODERATE'', 0.34305, ''high waves'')] = 0"
  "spec_ecosystem_score [(''anomalous_waves'', ''MODERATE'', 0.34305, ''high waves'')] = 0"
  by (simp_all add: spec_wave_score_def spec_wind_score_def spec_tidal_score_def
        spec_ecosystem_score_def spec_category_sum_def dict_get_def SEVERITY_LEVELS_def)

lemma store_validated_rounded:
  "py_round 0.057175 3 = 0.057"
  "py_round (min (0.057175 + 0 + 0 + 0) 1.0) 3 = 0.057"
  "py_round (min (real (length [x]) / 5) 1.0) 3 = 0.2"
  by (simp_all add: py_round_def round_half_even_def)

text \<open>
  C5. With no validated observation inside the window of \<open>hours_back\<close> hours the result
  should be the dictionary of zeros. It is not when such an observation was submitted
  earlier on the same date: the stored text has \<open>T\<close> where the text of the cutoff has a
  space, so it compares greater whatever its time of day. In \<open>store_validated\<close> the one
  observation was submitted at 09:00:00, on a machine whose local time is UTC; at
  23:44:00 UTC of that day (1767311040) and with \<open>hours_back = 1\<close> the cutoff is
  22:44:00, the observation is 14 hours and 44 minutes old, and it is counted: the total
  is 0.057 and the count 1. The observation lies 0.1 and 0.2 degrees from the location
  (10, 76), well inside the bounds.
\<close>

theorem indigenous_score_counts_stale_row:
  "sqlite_datetime_now_minus_hours 1767311040 1 = Some ''2026-01-01 22:44:00'' \<and>
   select_column timestamp store_validated 1 = [''2026-01-01T09:00:00''] \<and>
   calculate_indigenous_score_from_observations 1767311040 store_validated (10, 76) 1 =
     [(''wave_anomaly_score'', PyFloat 0.057),
      (''wind_anomaly_score'', PyFloat 0.0),
      (''tidal_anomaly_score'', PyFloat 0.0),
      (''ecosystem_stress_score'', PyFloat 0.0),
      (''total_indigenous_score'', PyFloat 0.057),
      (''confidence'', PyFloat 0.2),
      (''num_observations'', PyInt 1),
      (''observations_summary'',
         PyRecords [(''anomalous_waves'', ''MODERATE'', 0.34305, ''high waves'')])]"
proof -
  let ?df = "[(''anomalous_waves'', ''MODERATE'', 0.34305, ''high waves'')]"
  have "\<forall>row \<in> set ?df. fst row \<in> dom initial_scores"
    by (simp add: initial_scores_def)
  note agg = aggregate_known [OF this]
  have "calculate_indigenous_score_from_observations 1767311040 store_validated (10, 76) 1
          = the (aggregate ?df)"
    unfolding calculate_indigenous_score_from_observations_def store_validated_df Let_def agg
    by simp
  then have res: "calculate_indigenous_score_from_observations 1767311040 store_validated
                    (10, 76) 1 =
     [(''wave_anomaly_score'', PyFloat 0.057),
      (''wind_anomaly_score'', PyFloat 0.0),
      (''tidal_anomaly_score'', PyFloat 0.0),
      (''ecosystem_stress_score'', PyFloat 0.0),
      (''total_indigenous_score'', PyFloat 0.057),
      (''confidence'', PyFloat 0.2),
      (''num_observations'', PyInt 1),
      (''observations_summary'', PyRecords ?df)]"
    unfolding agg store_validated_scores store_validated_rounded by simp
  have ts: "select_column timestamp store_validated 1 = [''2026-01-01T09:00:00'']"
    by (simp add: select_column_def store_validated_observations)
  from cutoff_2026_01_01 ts res show ?thesis by blast
qed

end
